theory Spec2Isabelle
  imports Complex_Main
begin

section \<open>Qubit routing as a binary program: the model builders of qiskit-terra\<close>

text \<open>
  This theory embeds the two model builders of the routing pass,
  \<^verbatim>\<open>BIPMappingModel\<close> (\<^verbatim>\<open>bip_model.py\<close>, DOcplex) and
  \<^verbatim>\<open>MIPMappingModel\<close> (\<^verbatim>\<open>mip_model.py\<close>, flat Cplex indices), and proves
  properties of the models they build.

  Conventions of the embedding.
  \<^item> A DAG node of a two-qubit operation is identified by a natural number (\<open>node\<close>);
    a scheduled gate is the pair of logical qubit indices together with its node.
  \<^item> The collaborators outside the two files are inputs: the layers of the DAG
    (\<^verbatim>\<open>dag.layers()\<close> with the two-qubit operations of each layer), the reduced and
    symmetric coupling map (its size, its edge list and its distance function), the
    gate-fidelity curves of the decomposition routine and the solver.
  \<^item> The number of dummy time steps is a count, a natural number.
  \<^item> A Python exception is a value of type \<open>error\<close>; a function that can raise returns
    \<open>error + 'a\<close>.
  \<^item> Python floats are idealised as real numbers.
\<close>

subsection \<open>Errors\<close>

datatype error =
    TranspilerError
  | ValueError
  | IndexError
  | KeyError
  | AttributeError
  | SolveError

definition ebind :: "error + 'a \<Rightarrow> ('a \<Rightarrow> error + 'b) \<Rightarrow> error + 'b" where
  "ebind m f = (case m of Inl e \<Rightarrow> Inl e | Inr x \<Rightarrow> f x)"

text \<open>The Python expression \<^verbatim>\<open>xs[i]\<close> for an integer \<open>i\<close>: an index from \<open>-len(xs)\<close>
  up to \<open>-1\<close> addresses the list from its end, and an index outside
  \<open>-len(xs) .. len(xs) - 1\<close> raises \<^verbatim>\<open>IndexError\<close>.\<close>

definition py_index :: "'a list \<Rightarrow> int \<Rightarrow> error + 'a" where
  "py_index xs i =
     (if 0 \<le> i \<and> i < int (length xs) then Inr (xs ! nat i)
      else if i < 0 \<and> - int (length xs) \<le> i then Inr (xs ! nat (int (length xs) + i))
      else Inl IndexError)"

subsection \<open>The layered schedule of \<^verbatim>\<open>BIPMappingModel.__init__\<close>\<close>

type_synonym node = nat
type_synonym gate = "(nat \<times> nat) \<times> node"
type_synonym layer = "gate list"

text \<open>Lines 104-116: only the layers of the DAG that hold a two-qubit gate are kept.\<close>

definition su4layers_of :: "layer list \<Rightarrow> layer list" where
  "su4layers_of dag_layers = filter (\<lambda>laygates. laygates \<noteq> []) dag_layers"

text \<open>Lines 118-123: every layer is appended; after every layer but the last one,
  \<open>dummy_timesteps\<close> empty layers follow.\<close>

fun add_dummy_steps :: "layer list \<Rightarrow> nat \<Rightarrow> layer list" where
  "add_dummy_steps [] dummy_timesteps = []"
| "add_dummy_steps [lay] dummy_timesteps = [lay]"
| "add_dummy_steps (lay # rest) dummy_timesteps =
     lay # replicate dummy_timesteps [] @ add_dummy_steps rest dummy_timesteps"

text \<open>Lines 125-137: the adjustment of \<^verbatim>\<open>num_splits\<close>; \<open>L\<close> is
  \<^verbatim>\<open>len(self.su4layers)\<close>. Python's \<^verbatim>\<open>//\<close> on integers is floor division, as
  \<open>div\<close> on \<open>int\<close> is.\<close>

definition adjust_num_splits :: "int \<Rightarrow> nat \<Rightarrow> int" where
  "adjust_num_splits num_splits L =
     (let s = (if num_splits = 0 then 1
               else if num_splits = - 1 then max 1 ((int L - 2) div 2)
               else num_splits)
      in if s > 1 then min s (max 1 (int L - 2)) else s)"

text \<open>Lines 140-147: the schedule of heuristic window \<open>i\<close>. The loop over
  \<^verbatim>\<open>enumerate(self.su4layers)\<close> carries the window's layer list and its
  \<^verbatim>\<open>heur_last_layer\<close> entry (initially 0).\<close>

definition heur_step :: "nat \<Rightarrow> nat \<Rightarrow> nat \<times> layer \<Rightarrow> layer list \<times> nat \<Rightarrow> layer list \<times> nat" where
  "heur_step dummy_timesteps bound kl acc =
     (let k = fst kl; lay = snd kl; hg = fst acc @ [lay] in
      if k < bound then (hg @ replicate dummy_timesteps [], snd acc)
      else if k = bound then (hg, length hg)
      else (hg, snd acc))"

definition heur_window :: "layer list \<Rightarrow> nat \<Rightarrow> nat \<Rightarrow> nat \<Rightarrow> layer list \<times> nat" where
  "heur_window su4 dummy_timesteps split_size i =
     fold (heur_step dummy_timesteps (split_size * (i + 1))) (enumerate 0 su4) ([], 0)"

record bip =
  num_vqubits :: nat
  num_pqubits :: nat
  arcs :: "(nat \<times> nat) list"
  global_qubit :: "nat list"
  su4layers :: "layer list"
  gates :: "layer list"
  num_splits :: int
  heur_gates :: "layer list list"
  heur_last_layer :: "nat list"
  long_arcs :: "(nat \<times> nat) list"
  long_arcs_cost :: "((nat \<times> nat) \<times> nat) list"

text \<open>\<^verbatim>\<open>BIPMappingModel.__init__\<close>. The arguments \<open>coupling_size\<close>,
  \<open>coupling_edges\<close> and \<open>coupling_distance\<close> are the coupling map after
  \<^verbatim>\<open>reduce(qubit_subset)\<close> and \<^verbatim>\<open>make_symmetric()\<close>; \<open>dag_num_qubits\<close> is
  \<^verbatim>\<open>len(dag.qubits)\<close>. When no window heuristic is used the attributes of the
  heuristic are not created; they are the empty lists here.\<close>

definition BIPMappingModel_init ::
  "layer list \<Rightarrow> nat \<Rightarrow> nat \<Rightarrow> (nat \<times> nat) list \<Rightarrow> (nat \<Rightarrow> nat \<Rightarrow> nat) \<Rightarrow> nat list
     \<Rightarrow> nat \<Rightarrow> int \<Rightarrow> error + bip" where
  "BIPMappingModel_init dag_layers dag_num_qubits coupling_size coupling_edges
      coupling_distance qubit_subset dummy_timesteps num_splits0 =
     (if num_splits0 < - 1 then Inl ValueError
      else if dag_num_qubits \<noteq> coupling_size then Inl TranspilerError
      else
        let su4 = su4layers_of dag_layers;
            S = adjust_num_splits num_splits0 (length su4);
            split_size = max 1 (max 1 (length su4 - 2) div nat S);
            windows = (if S > 1
                       then map (heur_window su4 dummy_timesteps split_size) [0..<nat (S - 1)]
                       else []);
            la = (if S > 1
                  then [(i, j). i \<leftarrow> [0..<coupling_size], j \<leftarrow> [0..<coupling_size],
                                i \<noteq> j \<and> coupling_distance i j \<le> dummy_timesteps]
                  else [])
        in Inr \<lparr> num_vqubits = dag_num_qubits,
                 num_pqubits = coupling_size,
                 arcs = coupling_edges,
                 global_qubit = qubit_subset,
                 su4layers = su4,
                 gates = add_dummy_steps su4 dummy_timesteps,
                 num_splits = S,
                 heur_gates = map fst windows,
                 heur_last_layer = map snd windows,
                 long_arcs = la,
                 long_arcs_cost = map (\<lambda>a. (a, coupling_distance (fst a) (snd a))) la \<rparr>)"

definition depth :: "bip \<Rightarrow> nat" where
  "depth b = length (gates b)"

definition is_dummy_step :: "bip \<Rightarrow> nat \<Rightarrow> bool" where
  "is_dummy_step b t = (length (gates b ! t) = 0)"

subsection \<open>The layered schedule of \<^verbatim>\<open>_CircuitModel\<close> (\<^verbatim>\<open>mip_model.py\<close>)\<close>

text \<open>\<^verbatim>\<open>MIPMappingModel.__init__\<close>, lines 50-59: the gates of a layer are the pairs
  of qubit indices, and only layers with a two-qubit gate are kept.\<close>

definition mip_gates_of :: "layer list \<Rightarrow> (nat \<times> nat) list list" where
  "mip_gates_of dag_layers = map (map fst) (filter (\<lambda>laygates. laygates \<noteq> []) dag_layers)"

text \<open>\<^verbatim>\<open>_CircuitModel.__init__\<close>, lines 564-574. \<^verbatim>\<open>new_depth\<close> is an integer and
  may be negative; \<^verbatim>\<open>range\<close> of a negative number is empty.\<close>

definition CircuitModel_gates :: "(nat \<times> nat) list list \<Rightarrow> nat \<Rightarrow> (nat \<times> nat) list list" where
  "CircuitModel_gates gs dummy_timesteps =
     (let new_depth = 1 + (int (length gs) - 1) * (1 + int dummy_timesteps)
      in map (\<lambda>t. if t mod (dummy_timesteps + 1) = 0
                   then gs ! (t div (dummy_timesteps + 1))
                   else [])
             [0..<nat new_depth])"

subsection \<open>Linear models\<close>

text \<open>The variables of a DOcplex model are identified by the keys of the dictionaries
  \<^verbatim>\<open>w\<close>, \<^verbatim>\<open>y\<close>, \<^verbatim>\<open>x\<close> and \<^verbatim>\<open>z\<close>; the name of a variable
  (\<^verbatim>\<open>w_t_q_j\<close>, \<^verbatim>\<open>y_t_p_q_i_j\<close>, \<^verbatim>\<open>x_t_q_i_j\<close>, \<^verbatim>\<open>z_t\<close>) is its key written
  out. The names of the constraints are labels and are left out.\<close>

datatype var =
    W nat nat nat
  | Y nat nat nat nat nat
  | X nat nat nat nat
  | Z nat

datatype 'v lin = Lin (lin_terms: "(real \<times> 'v) list") (lin_const: real)

datatype sense = EQ | LE | GE

datatype 'v ct = Ct "'v lin" sense "'v lin"

record 'v model =
  variables :: "'v list"
  constraints :: "'v ct list"
  objective_expr :: "'v lin option"
  lb :: "'v \<Rightarrow> real"
  ub :: "'v \<Rightarrow> real"
  time_limit :: "real option"

definition vsum :: "'v list \<Rightarrow> 'v lin" where
  "vsum vs = Lin (map (\<lambda>v. (1, v)) vs) 0"

definition v1 :: "'v \<Rightarrow> 'v lin" where
  "v1 v = Lin [(1, v)] 0"

definition cnst :: "real \<Rightarrow> 'v lin" where
  "cnst c = Lin [] c"

definition eval :: "('v \<Rightarrow> real) \<Rightarrow> 'v lin \<Rightarrow> real" where
  "eval a e = sum_list (map (\<lambda>cv. fst cv * a (snd cv)) (lin_terms e)) + lin_const e"

fun sat :: "('v \<Rightarrow> real) \<Rightarrow> 'v ct \<Rightarrow> bool" where
  "sat a (Ct l EQ r) = (eval a l = eval a r)"
| "sat a (Ct l LE r) = (eval a l \<le> eval a r)"
| "sat a (Ct l GE r) = (eval a l \<ge> eval a r)"

text \<open>An assignment is feasible for a model when every variable takes a value within
  its bounds, the value is 0 or 1 (all variables are binary), and every constraint
  holds.\<close>

definition feasible :: "('v \<Rightarrow> real) \<Rightarrow> 'v model \<Rightarrow> bool" where
  "feasible a m =
     (list_all (\<lambda>v. (a v = 0 \<or> a v = 1) \<and> lb m v \<le> a v \<and> a v \<le> ub m v) (variables m)
      \<and> list_all (sat a) (constraints m))"

text \<open>A model on which \<^verbatim>\<open>minimize\<close> was never called has the constant objective 0.\<close>

definition objective_value :: "('v \<Rightarrow> real) \<Rightarrow> 'v model \<Rightarrow> real" where
  "objective_value a m = (case objective_expr m of None \<Rightarrow> 0 | Some e \<Rightarrow> eval a e)"

fun ct_vars :: "'v ct \<Rightarrow> 'v list" where
  "ct_vars (Ct l s r) = map snd (lin_terms l) @ map snd (lin_terms r)"

text \<open>Building an expression looks every variable up in a dictionary; a missing key
  raises \<^verbatim>\<open>KeyError\<close>. A block of constraints is built when all its keys exist.\<close>

definition guard :: "'v list \<Rightarrow> 'v ct list \<Rightarrow> error + 'v ct list" where
  "guard dict cs =
     (if list_all (\<lambda>c. list_all (\<lambda>v. v \<in> set dict) (ct_vars c)) cs then Inr cs
      else Inl KeyError)"

definition guard_lin :: "'v list \<Rightarrow> 'v lin \<Rightarrow> error + 'v lin" where
  "guard_lin dict e =
     (if list_all (\<lambda>v. v \<in> set dict) (map snd (lin_terms e)) then Inr e else Inl KeyError)"

fun collect :: "('a \<Rightarrow> error + 'b list) \<Rightarrow> 'a list \<Rightarrow> error + 'b list" where
  "collect f [] = Inr []"
| "collect f (t # ts) = ebind (f t) (\<lambda>xs. ebind (collect f ts) (\<lambda>ys. Inr (xs @ ys)))"

fun emap :: "('a \<Rightarrow> error + 'b) \<Rightarrow> 'a list \<Rightarrow> error + 'b list" where
  "emap f [] = Inr []"
| "emap f (t # ts) = ebind (f t) (\<lambda>x. ebind (emap f ts) (\<lambda>ys. Inr (x # ys)))"

subsection \<open>\<^verbatim>\<open>BIPMappingModel.create_cpx_problem\<close>: variables and constraints\<close>

text \<open>\<^verbatim>\<open>self._coupling.neighbors(i)\<close>: the successors of \<open>i\<close> along the arcs.\<close>

definition neighbors :: "bip \<Rightarrow> nat \<Rightarrow> nat list" where
  "neighbors b i = [j. (i', j) \<leftarrow> arcs b, i' = i]"

text \<open>Lines 163-165.\<close>

definition long_coupling_neighbors :: "bip \<Rightarrow> nat \<Rightarrow> nat list" where
  "long_coupling_neighbors b i = [j. (i', j) \<leftarrow> long_arcs b, i' = i]"

text \<open>Lines 262-266 and 459-463.\<close>

definition w_vars :: "bip \<Rightarrow> nat \<Rightarrow> var list" where
  "w_vars b d =
     [W t q j. t \<leftarrow> [0..<d], q \<leftarrow> [0..<num_vqubits b], j \<leftarrow> [0..<num_pqubits b]]"

text \<open>Lines 268-272 and 465-469.\<close>

definition y_vars :: "bip \<Rightarrow> layer list \<Rightarrow> var list" where
  "y_vars b gs =
     [Y t p q i j. t \<leftarrow> [0..<length gs], ((p, q), n) \<leftarrow> gs ! t, (i, j) \<leftarrow> arcs b]"

text \<open>Lines 274-280.\<close>

definition x_vars :: "bip \<Rightarrow> var list" where
  "x_vars b =
     [v. t \<leftarrow> [0..<depth b - 1], q \<leftarrow> [0..<num_vqubits b], i \<leftarrow> [0..<num_pqubits b],
         v \<leftarrow> X t q i i # [X t q i j. j \<leftarrow> neighbors b i]]"

text \<open>Lines 471-481. Here and below \<open>t < hll - 1\<close> is read over the natural numbers; it
  agrees with Python's comparison of integers, also when \<open>hll = 0\<close>.\<close>

definition heur_x_vars :: "bip \<Rightarrow> nat \<Rightarrow> var list" where
  "heur_x_vars b split =
     [v. t \<leftarrow> [0..<length (heur_gates b ! split) - 1], q \<leftarrow> [0..<num_vqubits b],
         i \<leftarrow> [0..<num_pqubits b],
         v \<leftarrow> X t q i i #
             (if t < heur_last_layer b ! split - 1
              then [X t q i j. j \<leftarrow> neighbors b i]
              else [X t q i j. j \<leftarrow> long_coupling_neighbors b i])]"

text \<open>Lines 380-383 and 592-595.\<close>

definition z_vars :: "bip \<Rightarrow> nat \<Rightarrow> var list" where
  "z_vars b tmax = [Z t. t \<leftarrow> [0..<tmax], is_dummy_step b t]"

text \<open>Lines 284-295 and 484-495: the assignment constraints.\<close>

definition assignment_vqubits :: "bip \<Rightarrow> nat \<Rightarrow> nat \<Rightarrow> var ct" where
  "assignment_vqubits b t q = Ct (vsum [W t q j. j \<leftarrow> [0..<num_pqubits b]]) EQ (cnst 1)"

definition assignment_pqubits :: "bip \<Rightarrow> nat \<Rightarrow> nat \<Rightarrow> var ct" where
  "assignment_pqubits b t j = Ct (vsum [W t q j. q \<leftarrow> [0..<num_vqubits b]]) EQ (cnst 1)"

definition assignment_cts :: "bip \<Rightarrow> nat \<Rightarrow> var ct list" where
  "assignment_cts b d =
     [assignment_vqubits b t q. t \<leftarrow> [0..<d], q \<leftarrow> [0..<num_vqubits b]] @
     [assignment_pqubits b t j. t \<leftarrow> [0..<d], j \<leftarrow> [0..<num_pqubits b]]"

text \<open>Lines 297-302 and 497-502: each gate must be implemented.\<close>

definition implement_gate_cts :: "bip \<Rightarrow> layer list \<Rightarrow> var ct list" where
  "implement_gate_cts b gs =
     [Ct (vsum [Y t p q i j. (i, j) \<leftarrow> arcs b]) EQ (cnst 1).
        t \<leftarrow> [0..<length gs], ((p, q), n) \<leftarrow> gs ! t]"

text \<open>The McCormick constraints of a gate \<open>(p, q)\<close> at step \<open>t\<close> on the arc \<open>(i, j)\<close>.\<close>

definition McCormickLB :: "nat \<Rightarrow> nat \<Rightarrow> nat \<Rightarrow> nat \<Rightarrow> nat \<Rightarrow> var ct" where
  "McCormickLB t p q i j =
     Ct (v1 (Y t p q i j)) GE (Lin [(1, W t p i), (1, W t q j)] (- 1))"

definition McCormickUB1_strong :: "nat \<Rightarrow> nat \<Rightarrow> nat \<Rightarrow> nat \<Rightarrow> nat \<Rightarrow> var ct" where
  "McCormickUB1_strong t p q i j =
     Ct (v1 (Y t p q i j)) LE (Lin [(1, X t p i i), (1, X t p i j)] 0)"

definition McCormickUB2_strong :: "nat \<Rightarrow> nat \<Rightarrow> nat \<Rightarrow> nat \<Rightarrow> nat \<Rightarrow> var ct" where
  "McCormickUB2_strong t p q i j =
     Ct (v1 (Y t p q i j)) LE (Lin [(1, X t q j i), (1, X t q j j)] 0)"

definition McCormickUB1_regular :: "nat \<Rightarrow> nat \<Rightarrow> nat \<Rightarrow> nat \<Rightarrow> nat \<Rightarrow> var ct" where
  "McCormickUB1_regular t p q i j = Ct (v1 (Y t p q i j)) LE (v1 (W t p i))"

definition McCormickUB2_regular :: "nat \<Rightarrow> nat \<Rightarrow> nat \<Rightarrow> nat \<Rightarrow> nat \<Rightarrow> var ct" where
  "McCormickUB2_regular t p q i j = Ct (v1 (Y t p q i j)) LE (v1 (W t q j))"

text \<open>Lines 304-321.\<close>

definition mccormick_cts :: "bip \<Rightarrow> var ct list" where
  "mccormick_cts b =
     [c. t \<leftarrow> [0..<depth b - 1], ((p, q), n) \<leftarrow> gates b ! t, (i, j) \<leftarrow> arcs b,
         c \<leftarrow> [McCormickLB t p q i j, McCormickUB1_strong t p q i j,
               McCormickUB2_strong t p q i j]]"

text \<open>Lines 323-339; \<open>lastg\<close> is \<^verbatim>\<open>self.gates[self.depth - 1]\<close>.\<close>

definition mccormick_last_cts :: "bip \<Rightarrow> layer \<Rightarrow> var ct list" where
  "mccormick_last_cts b lastg =
     [c. ((p, q), n) \<leftarrow> lastg, (i, j) \<leftarrow> arcs b,
         c \<leftarrow> [McCormickLB (depth b - 1) p q i j, McCormickUB1_regular (depth b - 1) p q i j,
               McCormickUB2_regular (depth b - 1) p q i j]]"

text \<open>Lines 504-532.\<close>

definition heur_mccormick_cts :: "bip \<Rightarrow> nat \<Rightarrow> var ct list" where
  "heur_mccormick_cts b split =
     [c. t \<leftarrow> [0..<length (heur_gates b ! split)], ((p, q), n) \<leftarrow> heur_gates b ! split ! t,
         (i, j) \<leftarrow> arcs b,
         c \<leftarrow> McCormickLB t p q i j #
             (if t < heur_last_layer b ! split - 1
              then [McCormickUB1_strong t p q i j, McCormickUB2_strong t p q i j]
              else [McCormickUB1_regular t p q i j, McCormickUB2_regular t p q i j])]"

text \<open>Lines 341-358: flow out of and into a node.\<close>

definition flow_out_ct :: "nat \<Rightarrow> nat \<Rightarrow> nat \<Rightarrow> nat list \<Rightarrow> var ct" where
  "flow_out_ct t q i nb =
     Ct (v1 (W t q i)) EQ (Lin ((1, X t q i i) # [(1, X t q i j). j \<leftarrow> nb]) 0)"

definition flow_in_ct :: "nat \<Rightarrow> nat \<Rightarrow> nat \<Rightarrow> nat list \<Rightarrow> var ct" where
  "flow_in_ct t q i nb =
     Ct (v1 (W t q i)) EQ (Lin ((1, X (t - 1) q i i) # [(1, X (t - 1) q j i). j \<leftarrow> nb]) 0)"

definition flow_out_cts :: "bip \<Rightarrow> var ct list" where
  "flow_out_cts b =
     [flow_out_ct t q i (neighbors b i).
        t \<leftarrow> [0..<depth b - 1], q \<leftarrow> [0..<num_vqubits b], i \<leftarrow> [0..<num_pqubits b]]"

definition flow_in_cts :: "bip \<Rightarrow> var ct list" where
  "flow_in_cts b =
     [flow_in_ct t q i (neighbors b i).
        t \<leftarrow> [1..<depth b], q \<leftarrow> [0..<num_vqubits b], i \<leftarrow> [0..<num_pqubits b]]"

text \<open>Lines 534-568.\<close>

definition heur_flow_out_cts :: "bip \<Rightarrow> nat \<Rightarrow> var ct list" where
  "heur_flow_out_cts b split =
     [flow_out_ct t q i
        (if t < heur_last_layer b ! split - 1 then neighbors b i
         else long_coupling_neighbors b i).
        t \<leftarrow> [0..<length (heur_gates b ! split) - 1], q \<leftarrow> [0..<num_vqubits b],
        i \<leftarrow> [0..<num_pqubits b]]"

definition heur_flow_in_cts :: "bip \<Rightarrow> nat \<Rightarrow> var ct list" where
  "heur_flow_in_cts b split =
     [flow_in_ct t q i
        (if t < heur_last_layer b ! split then neighbors b i
         else long_coupling_neighbors b i).
        t \<leftarrow> [1..<length (heur_gates b ! split)], q \<leftarrow> [0..<num_vqubits b],
        i \<leftarrow> [0..<num_pqubits b]]"

text \<open>Lines 360-365 and 571-576: the two qubits of a gate move together.\<close>

definition swap_cts :: "bip \<Rightarrow> layer list \<Rightarrow> nat \<Rightarrow> var ct list" where
  "swap_cts b gs tmax =
     [Ct (v1 (X t p i j)) EQ (v1 (X t q j i)).
        t \<leftarrow> [0..<tmax], ((p, q), n) \<leftarrow> gs ! t, (i, j) \<leftarrow> arcs b]"

text \<open>Lines 367-376 and 578-588. \<^verbatim>\<open>list.remove\<close> drops the first occurrence and raises
  \<^verbatim>\<open>ValueError\<close> when there is none.\<close>

fun q_no_gate :: "nat list \<Rightarrow> (nat \<times> nat) list \<Rightarrow> error + nat list" where
  "q_no_gate qs [] = Inr qs"
| "q_no_gate qs ((p, q) # gs) =
     (if p \<in> set qs
      then (if q \<in> set (remove1 p qs) then q_no_gate (remove1 q (remove1 p qs)) gs
            else Inl ValueError)
      else Inl ValueError)"

definition swap_no_gate_at :: "bip \<Rightarrow> var list \<Rightarrow> layer list \<Rightarrow> nat \<Rightarrow> error + var ct list" where
  "swap_no_gate_at b dict gs t =
     ebind (q_no_gate [0..<num_vqubits b] (map fst (gs ! t)))
       (\<lambda>qng. guard dict
          [Ct (vsum [X t q i j. q \<leftarrow> qng]) EQ (vsum [X t p j i. p \<leftarrow> qng]).
             (i, j) \<leftarrow> arcs b])"

definition swap_no_gate_cts :: "bip \<Rightarrow> var list \<Rightarrow> layer list \<Rightarrow> nat \<Rightarrow> error + var ct list" where
  "swap_no_gate_cts b dict gs tmax = collect (swap_no_gate_at b dict gs) [0..<tmax]"

text \<open>Lines 387-393 and 600-606: a dummy step that moves a qubit is used.\<close>

definition dummy_ts_needed_cts :: "bip \<Rightarrow> nat \<Rightarrow> var ct list" where
  "dummy_ts_needed_cts b tmax =
     [Ct (vsum [X t q i j. (i, j) \<leftarrow> arcs b]) LE (v1 (Z t)).
        t \<leftarrow> [0..<tmax], is_dummy_step b t, q \<leftarrow> [0..<num_vqubits b]]"

text \<open>Lines 395-399 and 608-612: symmetry breaking between consecutive dummy steps.\<close>

definition dummy_precedence_cts :: "bip \<Rightarrow> nat \<Rightarrow> var ct list" where
  "dummy_precedence_cts b tmax =
     [Ct (v1 (Z t)) GE (v1 (Z (t + 1))).
        t \<leftarrow> [0..<tmax - 1], is_dummy_step b t \<and> is_dummy_step b (t + 1)]"

subsection \<open>\<^verbatim>\<open>BIPMappingModel.create_cpx_problem\<close>: the objective\<close>

text \<open>The collaborators of the cost computation: the fidelity curve of a gate and of
  its mirrored gate (four values, for 0 to 3 uses of the native two-qubit gate), and
  numpy's mean of logarithms used by \<^verbatim>\<open>_avg_cx_fidelity\<close>.\<close>

record fidelities =
  gate_fidelities :: "node \<Rightarrow> real \<times> real \<times> real \<times> real"
  mirrored_gate_fidelities :: "node \<Rightarrow> real \<times> real \<times> real \<times> real"
  np_mean_log :: "real list \<Rightarrow> real"

text \<open>Lines 705-710. \<open>bprop\<close> is \<^verbatim>\<open>gate_error("cx", [a, b])\<close> of the backend properties
  as a function of the two global qubits. When \<open>bprop\<close> is \<open>None\<close> the default error rate
  is given: \<^verbatim>\<open>create_cpx_problem\<close> has checked it.\<close>

definition cx_fidelity :: "bip \<Rightarrow> (nat \<Rightarrow> nat \<Rightarrow> real) option \<Rightarrow> real option \<Rightarrow> nat \<Rightarrow> nat \<Rightarrow> real" where
  "cx_fidelity b bprop default_cx_error_rate i j =
     (case bprop of
        Some gate_error \<Rightarrow> 1 - gate_error (global_qubit b ! i) (global_qubit b ! j)
      | None \<Rightarrow> 1 - the default_cx_error_rate)"

text \<open>Lines 712-724.\<close>

definition avg_cx_fidelity :: "fidelities \<Rightarrow> bip \<Rightarrow> (nat \<Rightarrow> nat \<Rightarrow> real) option \<Rightarrow> real option \<Rightarrow> real" where
  "avg_cx_fidelity orc b bprop default_cx_error_rate =
     (case bprop of
        Some gate_error \<Rightarrow>
          1 - exp (np_mean_log orc
                [gate_error (global_qubit b ! i) (global_qubit b ! j). (i, j) \<leftarrow> arcs b])
      | None \<Rightarrow> 1 - the default_cx_error_rate)"

text \<open>Lines 693-703: the best expected fidelity over the number \<open>k\<close> of native gates.\<close>

definition max_expected :: "real \<times> real \<times> real \<times> real \<Rightarrow> real \<Rightarrow> real" where
  "max_expected gf f =
     (case gf of (g0, g1, g2, g3) \<Rightarrow>
        max (g0 * f ^ 0) (max (g1 * f ^ 1) (max (g2 * f ^ 2) (g3 * f ^ 3))))"

definition pbest_fid ::
  "fidelities \<Rightarrow> bip \<Rightarrow> (nat \<Rightarrow> nat \<Rightarrow> real) option \<Rightarrow> real option \<Rightarrow> node \<Rightarrow> nat \<Rightarrow> nat \<Rightarrow> real" where
  "pbest_fid orc b bprop df n i j =
     - ln (max_expected (gate_fidelities orc n) (cx_fidelity b bprop df i j))"

definition pbest_fidm ::
  "fidelities \<Rightarrow> bip \<Rightarrow> (nat \<Rightarrow> nat \<Rightarrow> real) option \<Rightarrow> real option \<Rightarrow> node \<Rightarrow> nat \<Rightarrow> nat \<Rightarrow> real" where
  "pbest_fidm orc b bprop df n i j =
     - ln (max_expected (mirrored_gate_fidelities orc n) (cx_fidelity b bprop df i j))"

text \<open>\<^verbatim>\<open>sum(z[t] for t in range(tmax) if self._is_dummy_step(t))\<close>, times a weight.\<close>

definition z_terms :: "bip \<Rightarrow> nat \<Rightarrow> real \<Rightarrow> (real \<times> var) list" where
  "z_terms b tmax weight = [(weight, Z t). t \<leftarrow> [0..<tmax], is_dummy_step b t]"

text \<open>Lines 404-407 and 619-622.\<close>

definition x_penalty_terms :: "bip \<Rightarrow> nat \<Rightarrow> (real \<times> var) list" where
  "x_penalty_terms b tmax =
     [(0.01, X t q i j). t \<leftarrow> [0..<tmax], q \<leftarrow> [0..<num_vqubits b], (i, j) \<leftarrow> arcs b]"

text \<open>Lines 413-421 and 630-641: the cost of a gate on an arc, and the correction on
  the movement variable of its second qubit when the gate is mirrored.\<close>

definition gate_cost_terms ::
  "fidelities \<Rightarrow> bip \<Rightarrow> (nat \<Rightarrow> nat \<Rightarrow> real) option \<Rightarrow> real option \<Rightarrow> layer \<Rightarrow> nat \<Rightarrow> (real \<times> var) list" where
  "gate_cost_terms orc b bprop df lay t =
     [tm. ((p, q), n) \<leftarrow> lay, (i, j) \<leftarrow> arcs b,
          tm \<leftarrow> [(pbest_fid orc b bprop df n i j, Y t p q i j),
                 ((pbest_fidm orc b bprop df n i j - pbest_fid orc b bprop df n i j) / 2,
                  X t q i j)]]"

text \<open>Lines 423-428 and 643-652: the cost of a swap of a qubit that is in no gate.\<close>

definition used_qubits :: "layer \<Rightarrow> nat list" where
  "used_qubits lay = [q. (pair, n) \<leftarrow> lay, q \<leftarrow> [fst pair, snd pair]]"

definition swap_cost_terms ::
  "bip \<Rightarrow> (nat \<Rightarrow> nat \<Rightarrow> real) option \<Rightarrow> real option \<Rightarrow> layer \<Rightarrow> nat \<Rightarrow> (real \<times> var) list" where
  "swap_cost_terms b bprop df lay t =
     [(- 3 / 2 * ln (cx_fidelity b bprop df i j), X t q i j).
        q \<leftarrow> [0..<num_vqubits b], q \<notin> set (used_qubits lay),
        i \<leftarrow> [0..<num_pqubits b], j \<leftarrow> neighbors b i]"

text \<open>Lines 430-433, 655-659 and 672-675: the cost of a gate alone.\<close>

definition gate_only_terms ::
  "fidelities \<Rightarrow> bip \<Rightarrow> (nat \<Rightarrow> nat \<Rightarrow> real) option \<Rightarrow> real option \<Rightarrow> layer \<Rightarrow> nat \<Rightarrow> (real \<times> var) list" where
  "gate_only_terms orc b bprop df lay t =
     [(pbest_fid orc b bprop df n i j, Y t p q i j). ((p, q), n) \<leftarrow> lay, (i, j) \<leftarrow> arcs b]"

text \<open>Lines 661-670: the approximate cost of a move along a long arc. Every long arc
  has a cost (lines 161-162).\<close>

definition long_swap_cost_terms ::
  "fidelities \<Rightarrow> bip \<Rightarrow> (nat \<Rightarrow> nat \<Rightarrow> real) option \<Rightarrow> real option \<Rightarrow> nat \<Rightarrow> (real \<times> var) list" where
  "long_swap_cost_terms orc b bprop df t =
     [(- 3 / 2 * ln (avg_cx_fidelity orc b bprop df)
         * real (the (map_of (long_arcs_cost b) (i, j))), X t q i j).
        q \<leftarrow> [0..<num_vqubits b], i \<leftarrow> [0..<num_pqubits b],
        j \<leftarrow> long_coupling_neighbors b i]"

text \<open>Lines 409-438: the expression \<^verbatim>\<open>objexr\<close> of the exact model for the objectives
  \<^verbatim>\<open>gate_error\<close> and \<^verbatim>\<open>balanced\<close>.\<close>

definition error_objexr ::
  "fidelities \<Rightarrow> bip \<Rightarrow> string \<Rightarrow> (nat \<Rightarrow> nat \<Rightarrow> real) option \<Rightarrow> real \<Rightarrow> real option \<Rightarrow> layer \<Rightarrow> var lin" where
  "error_objexr orc b objective bprop depth_obj_weight df lastg =
     Lin ([tm. t \<leftarrow> [0..<depth b - 1],
               tm \<leftarrow> gate_cost_terms orc b bprop df (gates b ! t) t
                     @ swap_cost_terms b bprop df (gates b ! t) t]
          @ gate_only_terms orc b bprop df lastg (depth b - 1)
          @ (if objective = ''balanced'' then z_terms b (depth b) depth_obj_weight else []))
         0"

text \<open>Lines 402-440: the objective of the exact model.\<close>

definition exact_objective ::
  "fidelities \<Rightarrow> bip \<Rightarrow> var list \<Rightarrow> string \<Rightarrow> (nat \<Rightarrow> nat \<Rightarrow> real) option \<Rightarrow> real \<Rightarrow> real option
     \<Rightarrow> layer \<Rightarrow> error + var lin option" where
  "exact_objective orc b dict objective bprop depth_obj_weight df lastg =
     (if objective = ''depth''
      then ebind (guard_lin dict (Lin (z_terms b (depth b) 1 @ x_penalty_terms b (depth b - 1)) 0))
             (\<lambda>e. Inr (Some e))
      else if objective = ''gate_error'' \<or> objective = ''balanced''
      then ebind (guard_lin dict (error_objexr orc b objective bprop depth_obj_weight df lastg))
             (\<lambda>e. Inr (Some e))
      else Inl TranspilerError)"

text \<open>Lines 624-679: the expression \<^verbatim>\<open>objexr\<close> of a window for the objectives
  \<^verbatim>\<open>gate_error\<close> and \<^verbatim>\<open>balanced\<close>; \<open>lastg\<close> is
  \<^verbatim>\<open>self.heur_gates[split][depth - 1]\<close>.\<close>

definition heur_error_objexr ::
  "fidelities \<Rightarrow> bip \<Rightarrow> nat \<Rightarrow> string \<Rightarrow> (nat \<Rightarrow> nat \<Rightarrow> real) option \<Rightarrow> real \<Rightarrow> real option \<Rightarrow> layer
     \<Rightarrow> var lin" where
  "heur_error_objexr orc b split objective bprop depth_obj_weight df lastg =
     (let hg = heur_gates b ! split; hll = heur_last_layer b ! split in
      Lin ([tm. t \<leftarrow> [0..<length hg - 1],
                tm \<leftarrow> (if t < hll
                       then gate_cost_terms orc b bprop df (hg ! t) t
                            @ swap_cost_terms b bprop df (hg ! t) t
                       else gate_only_terms orc b bprop df (hg ! t) t
                            @ long_swap_cost_terms orc b bprop df t)]
           @ gate_only_terms orc b bprop df lastg (length hg - 1)
           @ (if objective = ''balanced'' then z_terms b hll depth_obj_weight else []))
          0)"

text \<open>Lines 615-682: the objective of a window. For \<^verbatim>\<open>depth\<close>, \<^verbatim>\<open>mdl.minimize\<close> is
  called in the body of the innermost loop, after each penalty term is added: the last
  call sets the whole expression, and no call is made when the loops are empty. For the
  other two, \<^verbatim>\<open>mdl.minimize\<close> is called in the branch of \<^verbatim>\<open>balanced\<close> only.\<close>

definition heur_objective ::
  "fidelities \<Rightarrow> bip \<Rightarrow> var list \<Rightarrow> nat \<Rightarrow> string \<Rightarrow> (nat \<Rightarrow> nat \<Rightarrow> real) option \<Rightarrow> real \<Rightarrow> real option
     \<Rightarrow> layer \<Rightarrow> error + var lin option" where
  "heur_objective orc b dict split objective bprop depth_obj_weight df lastg =
     (let hll = heur_last_layer b ! split in
      if objective = ''depth''
      then ebind (guard_lin dict (Lin (z_terms b hll 1 @ x_penalty_terms b (hll - 1)) 0))
             (\<lambda>e. Inr (if x_penalty_terms b (hll - 1) = [] then None else Some e))
      else if objective = ''gate_error'' \<or> objective = ''balanced''
      then ebind (guard_lin dict
                    (heur_error_objexr orc b split objective bprop depth_obj_weight df lastg))
             (\<lambda>e. Inr (if objective = ''balanced'' then Some e else None))
      else Inl TranspilerError)"

subsection \<open>\<^verbatim>\<open>BIPMappingModel.create_cpx_problem\<close>: the models\<close>

text \<open>Lines 258-447: the exact model. The blocks are built in the order of the source,
  so the first exception of the source is the error of the model. The callback
  \<^verbatim>\<open>user_model_modifier\<close> is \<^verbatim>\<open>None\<close>.\<close>

definition exact_model ::
  "fidelities \<Rightarrow> bip \<Rightarrow> string \<Rightarrow> (nat \<Rightarrow> nat \<Rightarrow> real) option \<Rightarrow> real \<Rightarrow> real option
     \<Rightarrow> error + var model" where
  "exact_model orc b objective bprop depth_obj_weight df =
     (let d = depth b;
          dict = w_vars b d @ y_vars b (gates b) @ x_vars b;
          zs = z_vars b d
      in
      ebind (guard dict (mccormick_cts b)) (\<lambda>c3.
      ebind (py_index (gates b) (int d - 1)) (\<lambda>lastg.
      ebind (guard dict (mccormick_last_cts b lastg)) (\<lambda>c4.
      ebind (guard dict (flow_out_cts b)) (\<lambda>c5.
      ebind (guard dict (flow_in_cts b)) (\<lambda>c6.
      ebind (guard dict (swap_cts b (gates b) (d - 1))) (\<lambda>c7.
      ebind (swap_no_gate_cts b dict (gates b) (d - 1)) (\<lambda>c8.
      ebind (guard (dict @ zs) (dummy_ts_needed_cts b d)) (\<lambda>c9.
      ebind (exact_objective orc b (dict @ zs) objective bprop depth_obj_weight df lastg)
        (\<lambda>obj.
      Inr \<lparr> variables = dict @ zs,
            constraints = assignment_cts b d @ implement_gate_cts b (gates b) @ c3 @ c4
                          @ c5 @ c6 @ c7 @ c8 @ c9 @ dummy_precedence_cts b d,
            objective_expr = obj,
            lb = (\<lambda>v. 0),
            ub = (\<lambda>v. 1),
            time_limit = None \<rparr>))))))))))"

text \<open>Lines 454-690: the model of window \<open>split\<close>.\<close>

definition heur_model ::
  "fidelities \<Rightarrow> bip \<Rightarrow> string \<Rightarrow> (nat \<Rightarrow> nat \<Rightarrow> real) option \<Rightarrow> real \<Rightarrow> real option \<Rightarrow> nat
     \<Rightarrow> error + var model" where
  "heur_model orc b objective bprop depth_obj_weight df split =
     (let hg = heur_gates b ! split;
          hll = heur_last_layer b ! split;
          d = length hg;
          dict = w_vars b d @ y_vars b hg @ heur_x_vars b split;
          zs = z_vars b hll
      in
      ebind (guard dict (heur_mccormick_cts b split)) (\<lambda>c3.
      ebind (guard dict (heur_flow_out_cts b split)) (\<lambda>c5.
      ebind (guard dict (heur_flow_in_cts b split)) (\<lambda>c6.
      ebind (guard dict (swap_cts b hg (hll - 1))) (\<lambda>c7.
      ebind (swap_no_gate_cts b dict hg (hll - 1)) (\<lambda>c8.
      ebind (guard (dict @ zs) (dummy_ts_needed_cts b hll)) (\<lambda>c9.
      ebind (if objective = ''gate_error'' \<or> objective = ''balanced''
             then py_index hg (int d - 1) else Inr []) (\<lambda>lastg.
      ebind (heur_objective orc b (dict @ zs) split objective bprop depth_obj_weight df lastg)
        (\<lambda>obj.
      Inr \<lparr> variables = dict @ zs,
            constraints = assignment_cts b d @ implement_gate_cts b hg @ c3
                          @ c5 @ c6 @ c7 @ c8 @ c9 @ dummy_precedence_cts b hll,
            objective_expr = obj,
            lb = (\<lambda>v. 0),
            ub = (\<lambda>v. 1),
            time_limit = None \<rparr>)))))))))"

record problems =
  problem :: "var model"
  heur_problem :: "var model list"

text \<open>Lines 252-255 and 453: the exact model is built first, then one model for each
  of the \<^verbatim>\<open>num_splits - 1\<close> windows.\<close>

definition create_cpx_problem ::
  "fidelities \<Rightarrow> bip \<Rightarrow> string \<Rightarrow> (nat \<Rightarrow> nat \<Rightarrow> real) option \<Rightarrow> real \<Rightarrow> real option
     \<Rightarrow> error + problems" where
  "create_cpx_problem orc b objective bprop depth_obj_weight default_cx_error_rate =
     (if bprop = None \<and> default_cx_error_rate = None then Inl TranspilerError
      else
        ebind (exact_model orc b objective bprop depth_obj_weight default_cx_error_rate) (\<lambda>m.
        ebind (emap (heur_model orc b objective bprop depth_obj_weight default_cx_error_rate)
                 [0..<nat (num_splits b - 1)]) (\<lambda>hs.
        Inr \<lparr> problem = m, heur_problem = hs \<rparr>)))"

subsection \<open>\<^verbatim>\<open>BIPMappingModel.solve_cpx_problem\<close>\<close>

text \<open>The solver is a collaborator: for a model it returns the values of a solution, or
  nothing when it finds none. Reading \<^verbatim>\<open>solution_value\<close> of a variable of a model
  without a solution raises an exception of DOcplex (\<open>SolveError\<close> here);
  \<^verbatim>\<open>get_var_by_name\<close> returns \<^verbatim>\<open>None\<close> for a name the model does not have, and the
  access to its attribute raises \<^verbatim>\<open>AttributeError\<close>.\<close>

type_synonym solver = "var model \<Rightarrow> (var \<Rightarrow> real) option"

text \<open>Lines 785-818: the variables whose values are read from window \<open>split\<close> and
  fixed in the next model, in the order of the loops.\<close>

definition fix_list :: "bip \<Rightarrow> nat \<Rightarrow> var list" where
  "fix_list b split =
     (let hll = heur_last_layer b ! split in
      [v. t \<leftarrow> [0..<hll],
          v \<leftarrow> [W t q j. q \<leftarrow> [0..<num_vqubits b], j \<leftarrow> [0..<num_pqubits b]]
              @ [Y t p q i j. ((p, q), n) \<leftarrow> heur_gates b ! split ! t, (i, j) \<leftarrow> arcs b]
              @ (if t < hll - 1
                 then [X t q i j. q \<leftarrow> [0..<num_vqubits b], i \<leftarrow> [0..<num_pqubits b],
                                  j \<leftarrow> neighbors b i @ [i]]
                 else [])
              @ (if is_dummy_step b t then [Z t] else [])])"

text \<open>One pass of the body of these loops for each variable: the value is read from the
  solved window \<open>src\<close> and both bounds of the variable of \<open>nxt\<close> are set to it.\<close>

fun fix_vars :: "(var \<Rightarrow> real) option \<Rightarrow> var model \<Rightarrow> var list \<Rightarrow> var model \<Rightarrow> error + var model" where
  "fix_vars sol src [] nxt = Inr nxt"
| "fix_vars sol src (v # vs) nxt =
     (if v \<notin> set (variables src) then Inl AttributeError
      else case sol of
             None \<Rightarrow> Inl SolveError
           | Some val \<Rightarrow>
               if v \<notin> set (variables nxt) then Inl AttributeError
               else fix_vars sol src vs
                      (nxt\<lparr> lb := (lb nxt)(v := val v), ub := (ub nxt)(v := val v) \<rparr>))"

text \<open>Lines 762-818: one iteration of the loop over the windows. The state is the list
  \<^verbatim>\<open>self.heur_problem\<close> and the exact model \<^verbatim>\<open>self.problem\<close>. The hints
  \<^verbatim>\<open>threads\<close> and \<^verbatim>\<open>randomseed\<close> are passed to the solver and are left out.\<close>

definition window_time :: "bip \<Rightarrow> real \<Rightarrow> nat \<Rightarrow> real" where
  "window_time b time_limit0 split =
     time_limit0 * (real_of_int (num_splits b) - real split)
       / (real_of_int (num_splits b) * (real_of_int (num_splits b) + 1) / 2)"

definition solve_split ::
  "solver \<Rightarrow> bip \<Rightarrow> real \<Rightarrow> nat \<Rightarrow> var model list \<times> var model
     \<Rightarrow> error + var model list \<times> var model" where
  "solve_split slv b time_limit0 split st =
     (let hp = fst st; pr = snd st;
          h = (hp ! split)\<lparr> time_limit := Some (window_time b time_limit0 split) \<rparr>;
          hp1 = hp[split := h];
          sol = slv h
      in if int split < num_splits b - 2
         then ebind (fix_vars sol h (fix_list b split) (hp1 ! (split + 1)))
                (\<lambda>nx. Inr (hp1[split + 1 := nx], pr))
         else ebind (fix_vars sol h (fix_list b split) pr)
                (\<lambda>nx. Inr (hp1, nx)))"

fun solve_splits ::
  "solver \<Rightarrow> bip \<Rightarrow> real \<Rightarrow> nat list \<Rightarrow> var model list \<times> var model
     \<Rightarrow> error + var model list \<times> var model" where
  "solve_splits slv b time_limit0 [] st = Inr st"
| "solve_splits slv b time_limit0 (split # rest) st =
     ebind (solve_split slv b time_limit0 split st) (solve_splits slv b time_limit0 rest)"

text \<open>Lines 760-829. The result is the final state of the models and the solution of
  the exact model.\<close>

definition exact_time :: "bip \<Rightarrow> real \<Rightarrow> real" where
  "exact_time b time_limit0 =
     time_limit0 / (real_of_int (num_splits b) * (real_of_int (num_splits b) + 1) / 2)"

definition solve_cpx_problem ::
  "solver \<Rightarrow> bip \<Rightarrow> real \<Rightarrow> problems
     \<Rightarrow> error + (problems \<times> (var \<Rightarrow> real) option)" where
  "solve_cpx_problem slv b time_limit0 ps =
     ebind (if num_splits b > 1
            then solve_splits slv b time_limit0 [0..<nat (num_splits b - 1)]
                   (heur_problem ps, problem ps)
            else Inr (heur_problem ps, problem ps))
       (\<lambda>st. let pr = (snd st)\<lparr> time_limit := Some (exact_time b time_limit0) \<rparr>
             in Inr (\<lparr> problem = pr, heur_problem = fst st \<rparr>, slv pr))"

subsection \<open>\<^verbatim>\<open>_HardwareTopology\<close> and \<^verbatim>\<open>_IndexCalculator\<close> (\<^verbatim>\<open>mip_model.py\<close>)\<close>

text \<open>Lines 630-639: an edge is kept when neither it nor its reverse has been seen.
  \<^verbatim>\<open>edge_set\<close> is a Python set; its elements are listed here in the order of
  insertion.\<close>

definition add_edge :: "nat \<times> nat \<Rightarrow> (nat \<times> nat) list \<Rightarrow> (nat \<times> nat) list" where
  "add_edge e es = (if e \<in> set es \<or> (snd e, fst e) \<in> set es then es else es @ [e])"

definition topology_edges :: "nat \<Rightarrow> nat list list \<Rightarrow> (nat \<times> nat) list" where
  "topology_edges n connectivity =
     fold add_edge [(u, v). u \<leftarrow> [0..<n], v \<leftarrow> connectivity ! u] []"

text \<open>The data of a \<^verbatim>\<open>MIPMappingModel\<close> after \<^verbatim>\<open>__init__\<close>: the number of qubits of
  the topology (\<^verbatim>\<open>num_lqubits\<close> and \<^verbatim>\<open>num_pqubits\<close> of the index calculator are both
  this number), the gates of the circuit model, and the edges and arcs of the topology.
  The dictionaries \<^verbatim>\<open>_gate_fidelity\<close> and \<^verbatim>\<open>_gate_mfidelity\<close> of the circuit model
  are empty (lines 584-585) and nothing in the file fills them.\<close>

record mip =
  ht_num_qubits :: nat
  qc_gates :: "(nat \<times> nat) list list"
  ht_edges :: "(nat \<times> nat) list"
  ht_arcs :: "(nat \<times> nat) list"

text \<open>\<^verbatim>\<open>MIPMappingModel.__init__\<close>: \<open>coupling_edges\<close> is the edge list of the coupling
  map, \<^verbatim>\<open>coupling_map.neighbors(i)\<close> the successors of \<open>i\<close>.\<close>

definition MIPMappingModel_init :: "layer list \<Rightarrow> nat \<Rightarrow> (nat \<times> nat) list \<Rightarrow> nat \<Rightarrow> mip" where
  "MIPMappingModel_init dag_layers coupling_size coupling_edges dummy_timesteps =
     (let connectivity = map (\<lambda>i. [j. (i', j) \<leftarrow> coupling_edges, i' = i]) [0..<coupling_size];
          es = topology_edges coupling_size connectivity
      in \<lparr> ht_num_qubits = coupling_size,
           qc_gates = CircuitModel_gates (mip_gates_of dag_layers) dummy_timesteps,
           ht_edges = es,
           ht_arcs = es @ map (\<lambda>e. (snd e, fst e)) es \<rparr>)"

definition ic_depth :: "mip \<Rightarrow> nat" where
  "ic_depth m = length (qc_gates m)"

text \<open>Lines 649-654.\<close>

definition outstar_by_node :: "mip \<Rightarrow> nat \<Rightarrow> nat list" where
  "outstar_by_node m i = [v. (u, v) \<leftarrow> ht_arcs m, u = i]"

definition instar_by_node :: "mip \<Rightarrow> nat \<Rightarrow> nat list" where
  "instar_by_node m i = [u. (u, v) \<leftarrow> ht_arcs m, v = i]"

text \<open>A Python dictionary built from a list of key-value pairs: a later pair with the
  same key replaces an earlier one. The keys looked up below are keys of the dictionary
  (they are produced by the loops that filled it).\<close>

definition dict_get :: "('k \<times> 'v) list \<Rightarrow> 'k \<Rightarrow> 'v" where
  "dict_get kvs k = the (map_of (rev kvs) k)"

text \<open>Lines 576-581, 655-657.\<close>

definition gate_to_index :: "mip \<Rightarrow> nat \<Rightarrow> nat \<times> nat \<Rightarrow> nat" where
  "gate_to_index m t g =
     dict_get (map (\<lambda>ik. (snd ik, fst ik))
                 (enumerate 0 [(t', fst g', snd g').
                                 t' \<leftarrow> [0..<ic_depth m], g' \<leftarrow> qc_gates m ! t']))
       (t, fst g, snd g)"

definition edge_to_index :: "mip \<Rightarrow> nat \<times> nat \<Rightarrow> nat" where
  "edge_to_index m e = dict_get (map (\<lambda>ik. (snd ik, fst ik)) (enumerate 0 (ht_edges m))) e"

definition arc_to_index :: "mip \<Rightarrow> nat \<times> nat \<Rightarrow> nat" where
  "arc_to_index m a = dict_get (map (\<lambda>ik. (snd ik, fst ik)) (enumerate 0 (ht_arcs m))) a"

text \<open>Lines 744-768: the sizes and offsets of the blocks of variables.\<close>

definition num_gates :: "mip \<Rightarrow> nat" where
  "num_gates m = sum_list (map (\<lambda>t. length (qc_gates m ! t)) [0..<ic_depth m])"

definition num_w_vars :: "mip \<Rightarrow> nat" where
  "num_w_vars m = ic_depth m * ht_num_qubits m * ht_num_qubits m"

definition y_start :: "mip \<Rightarrow> nat" where
  "y_start m = 0 + num_w_vars m"

definition num_y_vars :: "mip \<Rightarrow> nat" where
  "num_y_vars m = num_gates m * length (ht_arcs m)"

definition x_start :: "mip \<Rightarrow> nat" where
  "x_start m = y_start m + num_y_vars m"

definition x_stride :: "mip \<Rightarrow> nat" where
  "x_stride m = 2 * length (ht_edges m) + ht_num_qubits m"

definition num_x_vars :: "mip \<Rightarrow> nat" where
  "num_x_vars m = (ic_depth m - 1) * ht_num_qubits m * x_stride m"

definition wd_start :: "mip \<Rightarrow> nat" where
  "wd_start m = x_start m + num_x_vars m"

definition num_wd_vars :: "mip \<Rightarrow> nat" where
  "num_wd_vars m = ic_depth m"

definition eu_start :: "mip \<Rightarrow> nat" where
  "eu_start m = wd_start m + num_wd_vars m"

definition num_eu_vars :: "mip \<Rightarrow> nat" where
  "num_eu_vars m = length (ht_edges m) * (ic_depth m - 1)"

text \<open>Lines 757-764: the running counter \<^verbatim>\<open>var_index\<close> numbers, node after node,
  the loop of the node and then its out-arcs.\<close>

definition x_var_base :: "mip \<Rightarrow> nat \<Rightarrow> nat" where
  "x_var_base m i = sum_list (map (\<lambda>i'. 1 + length (outstar_by_node m i')) [0..<i])"

definition x_var_mapping :: "mip \<Rightarrow> nat \<Rightarrow> nat \<Rightarrow> nat" where
  "x_var_mapping m i j =
     dict_get (zip (i # outstar_by_node m i)
                   [x_var_base m i ..< x_var_base m i + 1 + length (outstar_by_node m i)]) j"

text \<open>Lines 770-878.\<close>

definition w_index :: "mip \<Rightarrow> nat \<Rightarrow> nat \<Rightarrow> nat \<Rightarrow> nat" where
  "w_index m logical_qubit physical_qubit gate_depth =
     0 + gate_depth * ht_num_qubits m * ht_num_qubits m
       + physical_qubit * ht_num_qubits m + logical_qubit"

definition y_index :: "mip \<Rightarrow> nat \<Rightarrow> nat \<times> nat \<Rightarrow> nat \<times> nat \<Rightarrow> nat" where
  "y_index m t g a = y_start m + arc_to_index m a * num_gates m + gate_to_index m t g"

definition x_index :: "mip \<Rightarrow> nat \<Rightarrow> nat \<Rightarrow> nat \<Rightarrow> nat \<Rightarrow> nat" where
  "x_index m logical_qubit physical_qubit1 physical_qubit2 t =
     x_start m + t * ht_num_qubits m * x_stride m + logical_qubit * x_stride m
       + x_var_mapping m physical_qubit1 physical_qubit2"

definition wd_index :: "mip \<Rightarrow> nat \<Rightarrow> nat" where
  "wd_index m t = wd_start m + t"

definition eu_index :: "mip \<Rightarrow> nat \<Rightarrow> nat \<times> nat \<Rightarrow> nat" where
  "eu_index m t e = eu_start m + t * length (ht_edges m) + edge_to_index m e"

subsection \<open>\<^verbatim>\<open>MIPMappingModel.create_cpx_problem\<close>\<close>

text \<open>A linear constraint of Cplex: a \<^verbatim>\<open>SparsePair\<close> of indices and values, a sense
  and a right-hand side.\<close>

definition sparse_ct :: "(real \<times> nat) list \<Rightarrow> sense \<Rightarrow> real \<Rightarrow> nat ct" where
  "sparse_ct pairs s rhs = Ct (Lin pairs 0) s (cnst rhs)"

text \<open>Lines 193-210.\<close>

definition assignment_lqubits :: "mip \<Rightarrow> nat \<Rightarrow> nat \<Rightarrow> nat ct" where
  "assignment_lqubits m q t =
     sparse_ct [(1, w_index m q j t). j \<leftarrow> [0..<ht_num_qubits m]] EQ 1"

definition mip_assignment_pqubits :: "mip \<Rightarrow> nat \<Rightarrow> nat \<Rightarrow> nat ct" where
  "mip_assignment_pqubits m j t =
     sparse_ct [(1, w_index m q j t). q \<leftarrow> [0..<ht_num_qubits m]] EQ 1"

definition mip_assignment_cts :: "mip \<Rightarrow> nat ct list" where
  "mip_assignment_cts m =
     [assignment_lqubits m q t. q \<leftarrow> [0..<ht_num_qubits m], t \<leftarrow> [0..<ic_depth m]] @
     [mip_assignment_pqubits m j t. j \<leftarrow> [0..<ht_num_qubits m], t \<leftarrow> [0..<ic_depth m]]"

text \<open>Lines 214-253.\<close>

definition w_y_cts :: "mip \<Rightarrow> nat ct list" where
  "w_y_cts m =
     [c. t \<leftarrow> [0..<ic_depth m], (p, q) \<leftarrow> qc_gates m ! t, i \<leftarrow> [0..<ht_num_qubits m],
         j \<leftarrow> outstar_by_node m i,
         c \<leftarrow> (if int t = int (ic_depth m) - 1
                then [sparse_ct [(- 1, w_index m p i t), (1, y_index m t (p, q) (i, j))] LE 0,
                      sparse_ct [(- 1, w_index m q j t), (1, y_index m t (p, q) (i, j))] LE 0]
                else [sparse_ct [(- 1, x_index m p i i t), (- 1, x_index m p i j t),
                                 (1, y_index m t (p, q) (i, j))] LE 0,
                      sparse_ct [(- 1, x_index m q j j t), (- 1, x_index m q j i t),
                                 (1, y_index m t (p, q) (i, j))] LE 0])]"

text \<open>Lines 255-262.\<close>

definition assignment_y_cts :: "mip \<Rightarrow> nat ct list" where
  "assignment_y_cts m =
     [sparse_ct [(1, y_index m t (p, q) a). a \<leftarrow> ht_arcs m] EQ 1.
        t \<leftarrow> [0..<ic_depth m], (p, q) \<leftarrow> qc_gates m ! t]"

text \<open>Lines 265-275.\<close>

definition mip_swap_cts :: "mip \<Rightarrow> nat ct list" where
  "mip_swap_cts m =
     [sparse_ct [(1, x_index m p i j t), (- 1, x_index m q j i t)] EQ 0.
        t \<leftarrow> [0..<ic_depth m - 1], (p, q) \<leftarrow> qc_gates m ! t, (i, j) \<leftarrow> ht_arcs m]"

text \<open>Lines 277-289.\<close>

definition mip_swap_no_gate_at :: "mip \<Rightarrow> nat \<Rightarrow> error + nat ct list" where
  "mip_swap_no_gate_at m t =
     ebind (q_no_gate [0..<ht_num_qubits m] (qc_gates m ! t))
       (\<lambda>qng. Inr [sparse_ct ([(1, x_index m q i j t). q \<leftarrow> qng]
                               @ [(- 1, x_index m p j i t). p \<leftarrow> qng]) EQ 0.
                     (i, j) \<leftarrow> ht_arcs m])"

text \<open>Lines 293-308: the constraints of the dummy steps, and the steps that are not
  dummy, whose variable \<open>w\<^sup>d\<close> gets the lower bound 1.\<close>

definition dummy_ts_needed :: "mip \<Rightarrow> nat ct list" where
  "dummy_ts_needed m =
     [sparse_ct ([(1, x_index m p i j t). (i, j) \<leftarrow> ht_arcs m] @ [(- 1, wd_index m t)]) LE 0.
        t \<leftarrow> [0..<ic_depth m], length (qc_gates m ! t) = 0, p \<leftarrow> [0..<ht_num_qubits m]]"

definition non_dummy_steps :: "mip \<Rightarrow> nat list" where
  "non_dummy_steps m = [t. t \<leftarrow> [0..<ic_depth m], length (qc_gates m ! t) \<noteq> 0]"

text \<open>Lines 317-327.\<close>

definition mip_dummy_precedence :: "mip \<Rightarrow> nat ct list" where
  "mip_dummy_precedence m =
     [sparse_ct [(1, wd_index m t), (- 1, wd_index m (t + 1))] GE 0.
        t \<leftarrow> [0..<ic_depth m - 1],
        length (qc_gates m ! t) = 0 \<and> length (qc_gates m ! (t + 1)) = 0]"

text \<open>Lines 329-341: the optional symmetry breaking.\<close>

definition sym_break_line :: "mip \<Rightarrow> nat ct list" where
  "sym_break_line m =
     [sparse_ct (zip (replicate (ht_num_qubits m) 1)
                     ([w_index m p 0 0. p \<leftarrow> [0..<h]]
                      @ [w_index m q (ht_num_qubits m - 1) 0. q \<leftarrow> [h..<ht_num_qubits m]]))
                GE 1.
        h \<leftarrow> [1..<ht_num_qubits m]]"

text \<open>Lines 343-371. A \<^verbatim>\<open>SparsePair\<close> pairs its indices with its values; in the
  flow-in constraint the values are counted along the out-arcs and the indices along
  the in-arcs of the node, which are equally many.\<close>

definition flow_cts :: "mip \<Rightarrow> nat ct list" where
  "flow_cts m =
     [c. t \<leftarrow> [0..<ic_depth m], q \<leftarrow> [0..<ht_num_qubits m],
         c \<leftarrow> (if t < ic_depth m - 1
                then [sparse_ct ([(1, w_index m q i t), (- 1, x_index m q i i t)]
                                 @ [(- 1, x_index m q i j t). j \<leftarrow> outstar_by_node m i]) EQ 0.
                        i \<leftarrow> [0..<ht_num_qubits m]]
                else [])
               @ (if t > 0
                  then [sparse_ct (zip ([1, - 1] @ [- 1. i \<leftarrow> outstar_by_node m j])
                                       ([w_index m q j t, x_index m q j j (t - 1)]
                                        @ [x_index m q i j (t - 1). i \<leftarrow> instar_by_node m j]))
                                  EQ 0.
                          j \<leftarrow> [0..<ht_num_qubits m]]
                  else [])]"

text \<open>Lines 373-393: the definition of the variables \<open>e\<^sup>u\<close>.\<close>

definition mip_used_qubit :: "mip \<Rightarrow> nat \<Rightarrow> nat \<Rightarrow> bool" where
  "mip_used_qubit m t q = (\<exists>g \<in> set (qc_gates m ! t). fst g = q \<or> snd g = q)"

fun add_unused :: "nat list \<Rightarrow> nat list \<Rightarrow> nat list" where
  "add_unused er [] = er"
| "add_unused er (x # xs) = add_unused (if x \<in> set er then er else er @ [x]) xs"

definition edge_representation :: "mip \<Rightarrow> nat \<Rightarrow> nat \<times> nat \<Rightarrow> nat list" where
  "edge_representation m t e =
     add_unused
       [v. (p, q) \<leftarrow> qc_gates m ! t,
           v \<leftarrow> [y_index m t (p, q) (fst e, snd e), y_index m t (p, q) (snd e, fst e)]]
       [x_index m q (fst e) (snd e) t. q \<leftarrow> [0..<ht_num_qubits m], \<not> mip_used_qubit m t q]"

definition eu_def_cts :: "mip \<Rightarrow> nat ct list" where
  "eu_def_cts m =
     [sparse_ct ([(1, h). h \<leftarrow> edge_representation m t e] @ [(- 1, eu_index m t e)]) EQ 0.
        t \<leftarrow> [0..<ic_depth m - 1], e \<leftarrow> ht_edges m]"

text \<open>Lines 409-422: the depth objective.\<close>

definition set_depth_obj :: "mip \<Rightarrow> nat lin" where
  "set_depth_obj m = Lin [(1, i). i \<leftarrow> [wd_start m ..< wd_start m + num_wd_vars m]] 0"

text \<open>Lines 425-486: the error objective. With the empty dictionary
  \<^verbatim>\<open>_gate_fidelity\<close>, the first gate met raises: \<^verbatim>\<open>IndexError\<close> when one of its
  qubits is not an index of \<^verbatim>\<open>used_qubit\<close>, \<^verbatim>\<open>KeyError\<close> at the lookup of its fidelity
  otherwise. A step without gates sets the coefficients of the moves of all qubits; the
  basis fidelity of every arc is 0.96 (line 72).\<close>

fun set_error_rate_obj :: "mip \<Rightarrow> nat list \<Rightarrow> (real \<times> nat) list \<Rightarrow> error + nat lin" where
  "set_error_rate_obj m [] acc = Inr (Lin acc 0)"
| "set_error_rate_obj m (t # ts) acc =
     (case qc_gates m ! t of
        (p, q) # rest \<Rightarrow>
          if p < ht_num_qubits m \<and> q < ht_num_qubits m then Inl KeyError else Inl IndexError
      | [] \<Rightarrow>
          set_error_rate_obj m ts
            (acc @ (if t < ic_depth m - 1
                    then [(- 3 / 2 * ln (96 / 100), x_index m q i j t).
                            i \<leftarrow> [0..<ht_num_qubits m], q \<leftarrow> [0..<ht_num_qubits m],
                            j \<leftarrow> outstar_by_node m i]
                    else [])))"

text \<open>Lines 141-406. The model has one variable for each index below the total number
  of variables, all binary.\<close>

definition mip_create_cpx_problem :: "mip \<Rightarrow> string \<Rightarrow> bool \<Rightarrow> bool \<Rightarrow> error + nat model" where
  "mip_create_cpx_problem m objective line_symm cycle_symm =
     ebind (collect (mip_swap_no_gate_at m) [0..<ic_depth m - 1]) (\<lambda>c_swap_no_gate.
     ebind (if objective = ''error'' then set_error_rate_obj m [0..<ic_depth m] []
            else if objective = ''depth'' then Inr (set_depth_obj m)
            else Inl TranspilerError) (\<lambda>obj.
     Inr \<lparr> variables = [0..<eu_start m + num_eu_vars m],
           constraints = mip_assignment_cts m @ w_y_cts m @ assignment_y_cts m @ mip_swap_cts m
                         @ c_swap_no_gate @ dummy_ts_needed m @ mip_dummy_precedence m
                         @ (if line_symm then sym_break_line m else [])
                         @ flow_cts m @ eu_def_cts m,
           objective_expr = Some obj,
           lb = (\<lambda>v. if v \<in> wd_index m ` set (non_dummy_steps m)
                         \<or> (cycle_symm \<and> v = w_index m 0 0 0) then 1 else 0),
           ub = (\<lambda>v. 1),
           time_limit = None \<rparr>))"

subsection \<open>Example inputs\<close>

text \<open>A circuit on two qubits with \<open>L\<close> layers of one gate each (and a layer without
  two-qubit gates after the first one), on the coupling map with the single edge 0-1.\<close>

definition ex_layers :: "nat \<Rightarrow> layer list" where
  "ex_layers L = (case L of 0 \<Rightarrow> [[]] | Suc k \<Rightarrow> [((0, 1), 0)] # [] # replicate k [((0, 1), 0)])"

definition ex_edges :: "(nat \<times> nat) list" where
  "ex_edges = [(0, 1), (1, 0)]"

definition ex_distance :: "nat \<Rightarrow> nat \<Rightarrow> nat" where
  "ex_distance i j = (if i = j then 0 else 1)"

definition ex_init :: "nat \<Rightarrow> nat \<Rightarrow> int \<Rightarrow> error + bip" where
  "ex_init L dummy_timesteps num_splits0 =
     BIPMappingModel_init (ex_layers L) 2 2 ex_edges ex_distance [0, 1] dummy_timesteps
       num_splits0"

section \<open>Properties\<close>

subsection \<open>The sum monad and Python indexing\<close>

lemma ebind_Inr_iff: "ebind m f = Inr y \<longleftrightarrow> (\<exists>x. m = Inr x \<and> f x = Inr y)"
  by (cases m) (simp_all add: ebind_def)

lemma ebind_Inr [simp]: "ebind (Inr x) f = f x"
  by (simp add: ebind_def)

lemma ebind_Inl [simp]: "ebind (Inl e) f = Inl e"
  by (simp add: ebind_def)

lemma py_index_last: "xs \<noteq> [] \<Longrightarrow> py_index xs (int (length xs) - 1) = Inr (last xs)"
  by (cases xs rule: rev_cases) (simp_all add: py_index_def nat_diff_distrib')

lemma py_index_empty: "py_index [] i = Inl IndexError"
  by (simp add: py_index_def)

subsection \<open>The schedule with dummy steps\<close>

lemma length_add_dummy_steps:
  "length (add_dummy_steps ls D) = length ls + D * (length ls - 1)"
  by (induction ls D rule: add_dummy_steps.induct) auto

lemma nth_add_dummy_steps:
  "t < length (add_dummy_steps ls D) \<Longrightarrow>
   add_dummy_steps ls D ! t = (if t mod (D + 1) = 0 then ls ! (t div (D + 1)) else [])"
proof (induction ls D arbitrary: t rule: add_dummy_steps.induct)
  case (1 D)
  then show ?case by simp
next
  case (2 lay D)
  then show ?case by simp
next
  case (3 lay v va D)
  show ?case
  proof (cases "t < Suc D")
    case True
    then show ?thesis by (cases t) (auto simp: nth_append)
  next
    case False
    then obtain s where s: "t = s + Suc D"
      by (metis add.commute le_Suc_ex not_less)
    have len: "s < length (add_dummy_steps (v # va) D)"
      using 3(2) s by simp
    have a: "add_dummy_steps (lay # v # va) D ! t = add_dummy_steps (v # va) D ! s"
      using s by (simp add: nth_append nth_Cons')
    have d: "t div (D + 1) = Suc (s div (D + 1))" and m: "t mod (D + 1) = s mod (D + 1)"
      using s div_add_self2[of "D + 1" s] mod_add_self2[of s "D + 1"] by simp_all
    show ?thesis unfolding a d m using 3(1)[OF len] by simp
  qed
qed

lemma add_dummy_steps_Nil_iff: "add_dummy_steps ls D = [] \<longleftrightarrow> ls = []"
  by (induction ls D rule: add_dummy_steps.induct) auto

lemma last_add_dummy_steps: "ls \<noteq> [] \<Longrightarrow> last (add_dummy_steps ls D) = last ls"
  by (induction ls D rule: add_dummy_steps.induct) (auto simp: add_dummy_steps_Nil_iff)

lemma su4layers_nonempty: "k < length (su4layers_of dl) \<Longrightarrow> su4layers_of dl ! k \<noteq> []"
  using nth_mem[of k "su4layers_of dl"] by (auto simp: su4layers_of_def)

lemma div_lt_layers:
  assumes "t < L + D * (L - 1)" and "1 \<le> (L::nat)"
  shows "t div (D + 1) < L"
proof -
  obtain L' where L: "L = Suc L'"
    using assms(2) by (cases L) auto
  have "t < Suc L' * (D + 1)"
    using assms(1) unfolding L by (simp add: algebra_simps)
  then show ?thesis
    unfolding L by (simp add: less_mult_imp_div_less)
qed

lemma init_Inr:
  assumes "- 1 \<le> S0" and "nq = cs"
  shows "\<exists>b. BIPMappingModel_init dl nq cs ce cd qs D S0 = Inr b"
  using assms by (simp add: BIPMappingModel_init_def Let_def)

lemma init_fields:
  assumes "BIPMappingModel_init dl nq cs ce cd qs D S0 = Inr b"
  shows "gates b = add_dummy_steps (su4layers_of dl) D"
    and "num_splits b = adjust_num_splits S0 (length (su4layers_of dl))"
    and "num_vqubits b = nq" and "num_pqubits b = cs" and "nq = cs" and "arcs b = ce"
    and "su4layers b = su4layers_of dl" and "- 1 \<le> S0"
  using assms by (auto simp: BIPMappingModel_init_def Let_def split: if_splits)

lemma CircuitModel_gates_length:
  assumes "1 \<le> length gs"
  shows "length (CircuitModel_gates gs D) = length gs + D * (length gs - 1)"
proof -
  obtain L' where L: "length gs = Suc L'"
    using assms by (cases "length gs") auto
  have "1 + (int (length gs) - 1) * (1 + int D) = int (length gs + D * (length gs - 1))"
    unfolding L by (simp add: algebra_simps)
  then have "nat (1 + (int (length gs) - 1) * (1 + int D)) = length gs + D * (length gs - 1)"
    by (simp only: nat_int)
  then show ?thesis
    by (simp add: CircuitModel_gates_def Let_def)
qed

lemma CircuitModel_gates_nth:
  "t < length (CircuitModel_gates gs D) \<Longrightarrow>
   CircuitModel_gates gs D ! t = (if t mod (D + 1) = 0 then gs ! (t div (D + 1)) else [])"
  by (simp add: CircuitModel_gates_def Let_def)

lemma su4_ex_layers [simp]: "su4layers_of (ex_layers L) = replicate L [((0, 1), 0)]"
  by (cases L) (simp_all add: ex_layers_def su4layers_of_def)

lemma ex_init_Inr: "- 1 \<le> S0 \<Longrightarrow> \<exists>b. ex_init L D S0 = Inr b"
  unfolding ex_init_def by (rule init_Inr) simp_all

subsection \<open>The number of splits\<close>

text \<open>Claim C6. After \<^verbatim>\<open>BIPMappingModel.__init__\<close>, with \<open>L\<close> the number of layers that
  hold a two-qubit gate: a requested \<^verbatim>\<open>num_splits = -1\<close> gives the split count
  \<open>max 1 ((L - 2) div 2)\<close> (floor division); a requested count above 1 is clamped to at
  most \<open>max 1 (L - 2)\<close>; and a circuit with at most two such layers gets the split count
  1, with no heuristic window.\<close>

theorem split_count:
  assumes "BIPMappingModel_init dl nq cs ce cd qs D S0 = Inr b"
  shows "(S0 = - 1 \<longrightarrow> num_splits b = max 1 ((int (length (su4layers_of dl)) - 2) div 2))
       \<and> (1 < S0 \<longrightarrow> num_splits b = min S0 (max 1 (int (length (su4layers_of dl)) - 2))
                    \<and> num_splits b \<le> max 1 (int (length (su4layers_of dl)) - 2))
       \<and> (length (su4layers_of dl) \<le> 2 \<longrightarrow> num_splits b = 1 \<and> heur_gates b = []
                    \<and> [0..<nat (num_splits b - 1)] = [])"
proof -
  have n: "num_splits b = adjust_num_splits S0 (length (su4layers_of dl))" and s: "- 1 \<le> S0"
    using init_fields[OF assms] by simp_all
  have a: "S0 = - 1 \<longrightarrow> num_splits b = max 1 ((int (length (su4layers_of dl)) - 2) div 2)"
    unfolding n adjust_num_splits_def Let_def by auto
  have c: "1 < S0 \<longrightarrow> num_splits b = min S0 (max 1 (int (length (su4layers_of dl)) - 2))
                    \<and> num_splits b \<le> max 1 (int (length (su4layers_of dl)) - 2)"
    unfolding n adjust_num_splits_def Let_def by auto
  have small: "length (su4layers_of dl) \<le> 2 \<longrightarrow> num_splits b = 1"
    unfolding n adjust_num_splits_def Let_def using s by auto
  have "num_splits b = 1 \<longrightarrow> heur_gates b = []"
    using assms by (auto simp: BIPMappingModel_init_def Let_def split: if_splits)
  with a c small show ?thesis by simp
qed

theorem split_count_witness:
  "(\<exists>b. ex_init 6 1 (- 1) = Inr b \<and> num_splits b = 2)
   \<and> (\<exists>b. ex_init 4 1 5 = Inr b \<and> num_splits b = 2)
   \<and> (\<exists>b. ex_init 2 1 7 = Inr b \<and> num_splits b = 1 \<and> heur_gates b = [])"
proof -
  obtain b1 where b1: "ex_init 6 1 (- 1) = Inr b1" using ex_init_Inr[of "- 1"] by auto
  obtain b2 where b2: "ex_init 4 1 5 = Inr b2" using ex_init_Inr[of 5] by auto
  obtain b3 where b3: "ex_init 2 1 7 = Inr b3" using ex_init_Inr[of 7] by auto
  have "num_splits b1 = 2"
    using split_count[OF b1[unfolded ex_init_def]] by simp
  moreover have "num_splits b2 = 2"
    using split_count[OF b2[unfolded ex_init_def]] by simp
  moreover have "num_splits b3 = 1 \<and> heur_gates b3 = []"
    using split_count[OF b3[unfolded ex_init_def]] by simp
  ultimately show ?thesis using b1 b2 b3 by simp
qed


end
